theory Spec2Isabelle
  imports
    Complex_Main
    "HOL-Library.Multiset"
    "HOL-Library.Char_ord"
    "HOL-Library.List_Lexorder"
    "HOL-Library.Product_Lexorder"
begin

section \<open>Values and documents\<close>

text \<open>
  The server keeps no data of its own: every handler reads a JSON request, calls the
  document store, the payment gateway or the identity verifier, and sends a response.
  The handlers are modelled as functions from an environment (what the external services
  answer), a request and the database contents to an outcome and the new contents.

  A field of a document holds a JSON scalar, a store identifier or a date. Lists and
  nested objects inside a document are not inspected by any handler and are left out of
  the value type. Strings are byte strings. An identifier is written as its 24 lower-case
  hexadecimal digits, which is also how it travels in a JSON response or a URL.
\<close>

type_synonym oid = string

datatype json = JNull | JBool bool | JNum rat | JStr string | JOid oid | JDate nat

type_synonym doc = "(string \<times> json) list"

datatype error = BSONError | DuplicateKey | StoreFault

text \<open>
  \<open>new ObjectId(x)\<close> of the store's driver: with no value, \<open>null\<close> or a number it
  generates an identifier (the first argument here, supplied by the environment); a
  string must be 24 hexadecimal digits, in either case; anything else throws. (A JSON
  body holds no identifier or date; an identifier given to the constructor is copied.)
\<close>

definition is_hex :: "char \<Rightarrow> bool" where
  "is_hex c = (c \<in> set ''0123456789abcdefABCDEF'')"

definition lower_hex :: "char \<Rightarrow> char" where
  "lower_hex c =
     (if c = CHR ''A'' then CHR ''a'' else if c = CHR ''B'' then CHR ''b''
      else if c = CHR ''C'' then CHR ''c'' else if c = CHR ''D'' then CHR ''d''
      else if c = CHR ''E'' then CHR ''e'' else if c = CHR ''F'' then CHR ''f'' else c)"

definition is_lower_hex :: "char \<Rightarrow> bool" where
  "is_lower_hex c = (c \<in> set ''0123456789abcdef'')"

definition valid_oid :: "oid \<Rightarrow> bool" where
  "valid_oid i = (length i = 24 \<and> list_all is_lower_hex i)"

fun new_ObjectId :: "oid \<Rightarrow> json option \<Rightarrow> error + oid" where
  "new_ObjectId g None = Inr g"
| "new_ObjectId g (Some JNull) = Inr g"
| "new_ObjectId g (Some (JNum n)) = Inr g"
| "new_ObjectId g (Some (JStr s)) =
     (if length s = 24 \<and> list_all is_hex s then Inr (map lower_hex s) else Inl BSONError)"
| "new_ObjectId g (Some (JOid i)) = Inr i"
| "new_ObjectId g (Some (JBool b)) = Inl BSONError"
| "new_ObjectId g (Some (JDate t)) = Inl BSONError"

section \<open>The document store\<close>

text \<open>
  A collection is the list of its documents. A filter document such as
  \<open>{ created_by: userEmail }\<close> or \<open>{ _id: id }\<close> is a list of field-value pairs, all
  of which a matching document must hold; the empty filter \<open>{}\<close> matches every document.
\<close>

type_synonym query = "(string \<times> json) list"

definition matches :: "query \<Rightarrow> doc \<Rightarrow> bool" where
  "matches q d = list_all (\<lambda>(k, v). map_of d k = Some v) q"

text \<open>
  \<open>insertOne\<close>: a document without \<open>_id\<close> (or with a null one) gets the identifier
  the driver generates; the store keeps \<open>_id\<close> as the first field and refuses an
  identifier already in the collection. The flag says that the call fails for a reason
  outside the program (the store is unreachable); a failed call writes nothing.
\<close>

definition insertOne ::
  "bool \<Rightarrow> oid \<Rightarrow> doc \<Rightarrow> doc list \<Rightarrow> error + (doc list \<times> json)" where
  "insertOne fault fresh d coll =
     (if fault then Inl StoreFault
      else
        let i = (case map_of d ''_id'' of None \<Rightarrow> JOid fresh | Some JNull \<Rightarrow> JOid fresh | Some v \<Rightarrow> v);
            stored = (''_id'', i) # filter (\<lambda>(k, v). k \<noteq> ''_id'') d
        in if list_ex (\<lambda>x. map_of x ''_id'' = Some i) coll then Inl DuplicateKey
           else Inr (coll @ [stored], i))"

definition insert_result :: "json \<Rightarrow> doc" where
  "insert_result i = [(''acknowledged'', JBool True), (''insertedId'', i)]"

definition findOne :: "query \<Rightarrow> doc list \<Rightarrow> doc option" where
  "findOne q coll = List.find (matches q) coll"

text \<open>
  The store compares values of different kinds by kind first (null and missing, numbers,
  strings, identifiers, booleans, dates, in this order) and within a kind by value.
  \<open>find\<close> with \<open>sort: { k: -1 }\<close> returns the matching documents in descending order
  of field \<open>k\<close>. The store leaves the order of documents with equal keys open; the
  model fixes one.
\<close>

definition bson_key :: "json option \<Rightarrow> nat \<times> rat \<times> string" where
  "bson_key v =
     (case v of
        None \<Rightarrow> (1, 0, [])
      | Some JNull \<Rightarrow> (1, 0, [])
      | Some (JNum n) \<Rightarrow> (2, n, [])
      | Some (JStr s) \<Rightarrow> (3, 0, s)
      | Some (JOid i) \<Rightarrow> (7, 0, i)
      | Some (JBool b) \<Rightarrow> (8, if b then 1 else 0, [])
      | Some (JDate t) \<Rightarrow> (9, of_nat t, []))"

definition sort_field :: "string \<Rightarrow> doc \<Rightarrow> nat \<times> rat \<times> string" where
  "sort_field k d = bson_key (map_of d k)"

definition find_desc :: "query \<Rightarrow> string \<Rightarrow> doc list \<Rightarrow> doc list" where
  "find_desc q k coll = rev (sort_key (sort_field k) (filter (matches q) coll))"

definition descending :: "string \<Rightarrow> doc list \<Rightarrow> bool" where
  "descending k ds = sorted_wrt (\<lambda>a b. sort_field k b \<le> sort_field k a) ds"

text \<open>\<open>deleteOne\<close> removes the first matching document and reports how many it removed.\<close>

fun deleteOne :: "query \<Rightarrow> doc list \<Rightarrow> doc list \<times> nat" where
  "deleteOne q [] = ([], 0)"
| "deleteOne q (d # ds) =
     (if matches q d then (ds, 1)
      else (case deleteOne q ds of (ds', n) \<Rightarrow> (d # ds', n)))"

definition delete_result :: "nat \<Rightarrow> doc" where
  "delete_result n = [(''acknowledged'', JBool True), (''deletedCount'', JNum (of_nat n))]"

text \<open>
  \<open>updateOne(q, { $set: { k: v } })\<close> sets field \<open>k\<close> of the first matching document
  and reports \<open>modifiedCount\<close>: 1 when the document changed, 0 when no document matched
  or the field already held \<open>v\<close>.
\<close>

fun set_field :: "string \<Rightarrow> json \<Rightarrow> doc \<Rightarrow> doc" where
  "set_field k v [] = [(k, v)]"
| "set_field k v ((k', v') # d) =
     (if k' = k then (k, v) # d else (k', v') # set_field k v d)"

fun updateOne :: "query \<Rightarrow> string \<Rightarrow> json \<Rightarrow> doc list \<Rightarrow> doc list \<times> nat" where
  "updateOne q k v [] = ([], 0)"
| "updateOne q k v (d # ds) =
     (if matches q d
      then (if set_field k v d = d then (d # ds, 0) else (set_field k v d # ds, 1))
      else (case updateOne q k v ds of (ds', n) \<Rightarrow> (d # ds', n)))"

section \<open>Dates\<close>

text \<open>
  A date is a number of milliseconds since 1 January 1970 UTC. \<open>toISOString\<close> renders
  it as \<open>YYYY-MM-DDTHH:mm:ss.sssZ\<close> in the proleptic Gregorian calendar, with a signed
  six-digit year beyond 9999.
\<close>

definition digit :: "nat \<Rightarrow> char" where
  "digit n = ''0123456789'' ! (n mod 10)"

definition pad2 :: "nat \<Rightarrow> string" where
  "pad2 n = [digit (n div 10), digit n]"

definition pad3 :: "nat \<Rightarrow> string" where
  "pad3 n = [digit (n div 100), digit (n div 10), digit n]"

definition pad4 :: "nat \<Rightarrow> string" where
  "pad4 n = [digit (n div 1000), digit (n div 100), digit (n div 10), digit n]"

definition pad6 :: "nat \<Rightarrow> string" where
  "pad6 n = [digit (n div 100000), digit (n div 10000), digit (n div 1000),
             digit (n div 100), digit (n div 10), digit n]"

text \<open>The calendar date of a day number (days since 1 January 1970), in 400-year eras.\<close>

definition era :: "nat \<Rightarrow> nat" where
  "era z = (z + 719468) div 146097"

definition day_of_era :: "nat \<Rightarrow> nat" where
  "day_of_era z = (z + 719468) mod 146097"

definition year_of_era :: "nat \<Rightarrow> nat" where
  "year_of_era doe = (doe - doe div 1460 + doe div 36524 - doe div 146096) div 365"

definition day_of_year :: "nat \<Rightarrow> nat" where
  "day_of_year doe = doe - (365 * year_of_era doe + year_of_era doe div 4 - year_of_era doe div 100)"

definition month_index :: "nat \<Rightarrow> nat" where
  "month_index doy = (5 * doy + 2) div 153"

definition month_of :: "nat \<Rightarrow> nat" where
  "month_of mp = (if mp < 10 then mp + 3 else mp - 9)"

definition civil_from_days :: "nat \<Rightarrow> nat \<times> nat \<times> nat" where
  "civil_from_days z =
     (year_of_era (day_of_era z) + era z * 400
        + (if month_of (month_index (day_of_year (day_of_era z))) \<le> 2 then 1 else 0),
      month_of (month_index (day_of_year (day_of_era z))),
      day_of_year (day_of_era z)
        - (153 * month_index (day_of_year (day_of_era z)) + 2) div 5 + 1)"

definition date_part :: "nat \<times> nat \<times> nat \<Rightarrow> string" where
  "date_part ymd =
     (case ymd of (y, m, d) \<Rightarrow>
        (if y \<le> 9999 then pad4 y else CHR ''+'' # pad6 y) @ ''-'' @ pad2 m @ ''-'' @ pad2 d)"

definition time_part :: "nat \<Rightarrow> string" where
  "time_part t =
     pad2 ((t div 3600000) mod 24) @ '':'' @ pad2 ((t div 60000) mod 60) @ '':''
     @ pad2 ((t div 1000) mod 60) @ ''.'' @ pad3 (t mod 1000)"

definition toISOString :: "nat \<Rightarrow> string" where
  "toISOString t = date_part (civil_from_days (t div 86400000)) @ ''T'' @ time_part t @ ''Z''"

section \<open>Requests, responses and the environment\<close>

record request =
  authorization :: "string option"
  query_email :: "string option"
  params_id :: string
  body :: doc
  decoded :: "doc option"

datatype reply = Json doc | JsonList "doc list"

text \<open>
  A handler either sends a response (status and body) or throws out of its own body.
  No handler but the two payment handlers and the payment-intent handler has a
  \<open>try\<close>/\<open>catch\<close>, so an exception elsewhere ends the handler before it has sent
  anything. What the web framework does with such an exception is outside the model.
\<close>

datatype outcome = Responded nat reply | Unhandled error

record db =
  users :: "doc list"
  parcels :: "doc list"
  payments :: "doc list"
  riders :: "doc list"

datatype store_call =
  UsersInsert | ParcelsInsert | ParcelsFind | ParcelsFindOne | ParcelsDelete
  | ParcelsUpdate | RidersInsert | PaymentsInsert | PaymentsFind

record intent_params =
  amount :: "json option"
  currency :: string
  payment_method_types :: "string list"

record payment_intent =
  client_secret :: json

text \<open>
  The environment of one request: what the identity verifier answers for a token
  (\<open>None\<close> when it rejects it), what the gateway answers (\<open>Inl\<close> the message of the
  error it throws), the identifiers the driver generates, the two readings of the clock
  that the payment handler takes, and which store calls fail.
\<close>

record env =
  verifyIdToken :: "string \<Rightarrow> doc option"
  paymentIntents_create :: "intent_params \<Rightarrow> string + payment_intent"
  generated_id :: oid
  insert_id :: oid
  clock_first :: nat
  clock_second :: nat
  store_fault :: "store_call \<Rightarrow> bool"

section \<open>The auth gate\<close>

text \<open>\<open>s.split(' ')\<close>: the pieces of \<open>s\<close> between single spaces, empty pieces included.\<close>

fun split_on :: "char \<Rightarrow> string \<Rightarrow> string list" where
  "split_on c [] = [[]]"
| "split_on c (x # xs) =
     (if x = c then [] # split_on c xs
      else (case split_on c xs of [] \<Rightarrow> [[x]] | w # ws \<Rightarrow> (x # w) # ws))"

definition bearer_token :: "string \<Rightarrow> string option" where
  "bearer_token authHeader =
     (case split_on CHR '' '' authHeader of
        a # token # rest \<Rightarrow> (if token = [] then None else Some token)
      | _ \<Rightarrow> None)"

definition message :: "string \<Rightarrow> reply" where
  "message m = Json [(''message'', JStr m)]"

text \<open>
  \<open>verifyFBToken\<close> returns the tokens it sent to the identity verifier and either the
  response it sent itself or the request it handed to the next handler.
\<close>

definition verifyFBToken :: "env \<Rightarrow> request \<Rightarrow> string list \<times> (outcome + request)" where
  "verifyFBToken e req =
     (case authorization req of
        None \<Rightarrow> ([], Inl (Responded 401 (message ''unauthorized access'')))
      | Some authHeader \<Rightarrow>
          if authHeader = [] then ([], Inl (Responded 401 (message ''unauthorized access'')))
          else
            (case bearer_token authHeader of
               None \<Rightarrow> ([], Inl (Responded 401 (message ''unauthorized access'')))
             | Some token \<Rightarrow>
                 (case verifyIdToken e token of
                    Some claims \<Rightarrow> ([token], Inr (req\<lparr>decoded := Some claims\<rparr>))
                  | None \<Rightarrow> ([token], Inl (Responded 403 (message ''forbidden access''))))))"

section \<open>The handlers\<close>

definition post_users :: "env \<Rightarrow> request \<Rightarrow> db \<Rightarrow> outcome \<times> db" where
  "post_users e req s =
     (case insertOne (store_fault e UsersInsert) (insert_id e) (body req) (users s) of
        Inl err \<Rightarrow> (Unhandled err, s)
      | Inr (c, i) \<Rightarrow> (Responded 201 (Json (insert_result i)), s\<lparr>users := c\<rparr>))"

definition post_parcels :: "env \<Rightarrow> request \<Rightarrow> db \<Rightarrow> outcome \<times> db" where
  "post_parcels e req s =
     (case insertOne (store_fault e ParcelsInsert) (insert_id e) (body req) (parcels s) of
        Inl err \<Rightarrow> (Unhandled err, s)
      | Inr (c, i) \<Rightarrow> (Responded 201 (Json (insert_result i)), s\<lparr>parcels := c\<rparr>))"

text \<open>
  \<open>userEmail ? { created_by: userEmail } : {}\<close>: a missing parameter and the empty
  string are both falsy.
\<close>

definition email_query :: "string \<Rightarrow> string option \<Rightarrow> query" where
  "email_query k userEmail =
     (case userEmail of
        None \<Rightarrow> []
      | Some m \<Rightarrow> (if m = [] then [] else [(k, JStr m)]))"

definition get_parcels :: "env \<Rightarrow> request \<Rightarrow> db \<Rightarrow> outcome \<times> db" where
  "get_parcels e req s =
     (if store_fault e ParcelsFind then (Unhandled StoreFault, s)
      else (Responded 200
              (JsonList (find_desc (email_query ''created_by'' (query_email req)) ''createdAt'' (parcels s))),
            s))"

definition get_parcel :: "env \<Rightarrow> request \<Rightarrow> db \<Rightarrow> outcome \<times> db" where
  "get_parcel e req s =
     (case new_ObjectId (generated_id e) (Some (JStr (params_id req))) of
        Inl err \<Rightarrow> (Unhandled err, s)
      | Inr i \<Rightarrow>
          if store_fault e ParcelsFindOne then (Unhandled StoreFault, s)
          else
            (case findOne [(''_id'', JOid i)] (parcels s) of
               None \<Rightarrow> (Responded 404 (message ''Parcel not found''), s)
             | Some parcel \<Rightarrow> (Responded 200 (Json parcel), s)))"

definition delete_parcel :: "env \<Rightarrow> request \<Rightarrow> db \<Rightarrow> outcome \<times> db" where
  "delete_parcel e req s =
     (case new_ObjectId (generated_id e) (Some (JStr (params_id req))) of
        Inl err \<Rightarrow> (Unhandled err, s)
      | Inr i \<Rightarrow>
          if store_fault e ParcelsDelete then (Unhandled StoreFault, s)
          else
            (case deleteOne [(''_id'', JOid i)] (parcels s) of
               (c, n) \<Rightarrow> (Responded 200 (Json (delete_result n)), s\<lparr>parcels := c\<rparr>)))"

definition post_riders :: "env \<Rightarrow> request \<Rightarrow> db \<Rightarrow> outcome \<times> db" where
  "post_riders e req s =
     (case insertOne (store_fault e RidersInsert) (insert_id e) (body req) (riders s) of
        Inl err \<Rightarrow> (Unhandled err, s)
      | Inr (c, i) \<Rightarrow> (Responded 200 (Json (insert_result i)), s\<lparr>riders := c\<rparr>))"

definition create_payment_intent :: "env \<Rightarrow> request \<Rightarrow> db \<Rightarrow> outcome \<times> db" where
  "create_payment_intent e req s =
     (let amountInCents = map_of (body req) ''amountInCents'' in
      case paymentIntents_create e
             \<lparr>amount = amountInCents, currency = ''usd'', payment_method_types = [''card'']\<rparr> of
        Inr paymentIntent \<Rightarrow>
          (Responded 200 (Json [(''clientSecret'', client_secret paymentIntent)]), s)
      | Inl error_message \<Rightarrow> (Responded 500 (Json [(''error'', JStr error_message)]), s))"

text \<open>
  A field the request body lacks is \<open>undefined\<close> in the handler, and the driver stores
  an undefined field as null.
\<close>

definition stored :: "json option \<Rightarrow> json" where
  "stored v = (case v of None \<Rightarrow> JNull | Some x \<Rightarrow> x)"

definition paymentDoc :: "env \<Rightarrow> doc \<Rightarrow> doc" where
  "paymentDoc e b =
     [(''parcelId'', stored (map_of b ''parcelId'')),
      (''email'', stored (map_of b ''email'')),
      (''amount'', stored (map_of b ''amount'')),
      (''paymentMethod'', stored (map_of b ''paymentMethod'')),
      (''transactionId'', stored (map_of b ''transactionId'')),
      (''paid_at_string'', JStr (toISOString (clock_first e))),
      (''paid_at'', JDate (clock_second e))]"

definition post_payments :: "env \<Rightarrow> request \<Rightarrow> db \<Rightarrow> outcome \<times> db" where
  "post_payments e req s =
     (case new_ObjectId (generated_id e) (map_of (body req) ''parcelId'') of
        Inl err \<Rightarrow> (Responded 500 (message ''Failed to record payment''), s)
      | Inr i \<Rightarrow>
          if store_fault e ParcelsUpdate
          then (Responded 500 (message ''Failed to record payment''), s)
          else
            (case updateOne [(''_id'', JOid i)] ''payment_status'' (JStr ''paid'') (parcels s) of
               (ps, modifiedCount) \<Rightarrow>
                 if modifiedCount = 0
                 then (Responded 404 (message ''Parcel not found or already paid''), s\<lparr>parcels := ps\<rparr>)
                 else
                   (case insertOne (store_fault e PaymentsInsert) (insert_id e)
                           (paymentDoc e (body req)) (payments s) of
                      Inl err \<Rightarrow>
                        (Responded 500 (message ''Failed to record payment''), s\<lparr>parcels := ps\<rparr>)
                    | Inr (c, pid) \<Rightarrow>
                        (Responded 201
                           (Json [(''message'', JStr ''Payment recorded and parcel marked as paid''),
                                  (''insertedId'', pid)]),
                         s\<lparr>parcels := ps, payments := c\<rparr>))))"

definition get_payments :: "env \<Rightarrow> request \<Rightarrow> db \<Rightarrow> outcome \<times> db" where
  "get_payments e req s =
     (if store_fault e PaymentsFind then (Responded 500 (message ''Failed to get payments''), s)
      else (Responded 200
              (JsonList (find_desc (email_query ''email'' (query_email req)) ''paid_at'' (payments s))),
            s))"

section \<open>Routing\<close>

text \<open>
  The routes registered on the store's collections, and which of them are registered
  with \<open>verifyFBToken\<close> before the handler. (The earlier variants of the server
  register the same parcel and payment handlers without it.) The image upload and the
  greeting at \<open>/\<close> take no part in what follows and are left out.
\<close>

datatype route =
  PostUsers | PostParcels | GetParcels | GetParcelById | DeleteParcel | PostRiders
  | CreatePaymentIntent | PostPayments | GetPayments

fun auth_gated :: "route \<Rightarrow> bool" where
  "auth_gated PostUsers = False"
| "auth_gated PostParcels = True"
| "auth_gated GetParcels = True"
| "auth_gated GetParcelById = True"
| "auth_gated DeleteParcel = True"
| "auth_gated PostRiders = True"
| "auth_gated CreatePaymentIntent = False"
| "auth_gated PostPayments = True"
| "auth_gated GetPayments = True"

fun handler :: "route \<Rightarrow> env \<Rightarrow> request \<Rightarrow> db \<Rightarrow> outcome \<times> db" where
  "handler PostUsers = post_users"
| "handler PostParcels = post_parcels"
| "handler GetParcels = get_parcels"
| "handler GetParcelById = get_parcel"
| "handler DeleteParcel = delete_parcel"
| "handler PostRiders = post_riders"
| "handler CreatePaymentIntent = create_payment_intent"
| "handler PostPayments = post_payments"
| "handler GetPayments = get_payments"

text \<open>
  Serving a request: the tokens sent to the identity verifier, the outcome and the new
  database contents.
\<close>

definition serve :: "env \<Rightarrow> route \<Rightarrow> request \<Rightarrow> db \<Rightarrow> string list \<times> outcome \<times> db" where
  "serve e r req s =
     (if auth_gated r
      then (case verifyFBToken e req of
              (calls, Inl out) \<Rightarrow> (calls, out, s)
            | (calls, Inr req') \<Rightarrow> (calls, handler r e req' s))
      else ([], handler r e req s))"

section \<open>Example data\<close>

text \<open>
  A small database, an environment in which every service answers and a request carrying
  a token the identity verifier accepts. The theorems below are applied to them.
\<close>

definition parcel_a :: doc where
  "parcel_a = [(''_id'', JOid ''64b7f0c2a1b2c3d4e5f60789''), (''title'', JStr ''Books''),
               (''created_by'', JStr ''amina@example.com''),
               (''createdAt'', JStr ''2025-07-01T10:00:00.000Z''),
               (''payment_status'', JStr ''unpaid'')]"

definition parcel_b :: doc where
  "parcel_b = [(''_id'', JOid ''64b7f0c2a1b2c3d4e5f6078a''), (''title'', JStr ''Shoes''),
               (''created_by'', JStr ''bilal@example.com''),
               (''createdAt'', JStr ''2025-07-03T08:30:00.000Z''),
               (''payment_status'', JStr ''paid'')]"

definition parcel_c :: doc where
  "parcel_c = [(''_id'', JOid ''64b7f0c2a1b2c3d4e5f6078b''), (''title'', JStr ''Lamp''),
               (''created_by'', JStr ''amina@example.com''),
               (''createdAt'', JStr ''2025-07-05T16:45:00.000Z'')]"

definition example_db :: db where
  "example_db = \<lparr>users = [], parcels = [parcel_a, parcel_b, parcel_c], payments = [], riders = []\<rparr>"

definition example_env :: env where
  "example_env =
     \<lparr>verifyIdToken = (\<lambda>t. if t = ''good-token'' then Some [(''uid'', JStr ''u1'')] else None),
      paymentIntents_create =
        (\<lambda>p. if amount p = Some (JNum 500) then Inr \<lparr>client_secret = JStr ''pi_1_secret_2''\<rparr>
             else Inl ''Invalid integer''),
      generated_id = ''6890000000000000000000aa'',
      insert_id = ''6890000000000000000000bb'',
      clock_first = 1700000000999,
      clock_second = 1700000001000,
      store_fault = (\<lambda>c. False)\<rparr>"

definition example_request :: request where
  "example_request =
     \<lparr>authorization = Some ''Bearer good-token'', query_email = None, params_id = [],
      body = [], decoded = None\<rparr>"

definition payment_body :: "string \<Rightarrow> doc" where
  "payment_body parcelId =
     [(''parcelId'', JStr parcelId), (''email'', JStr ''amina@example.com''),
      (''amount'', JNum 500), (''paymentMethod'', JStr ''card''),
      (''transactionId'', JStr ''pi_1'')]"

definition parcel_a_paid :: doc where
  "parcel_a_paid = [(''_id'', JOid ''64b7f0c2a1b2c3d4e5f60789''), (''title'', JStr ''Books''),
                    (''created_by'', JStr ''amina@example.com''),
                    (''createdAt'', JStr ''2025-07-01T10:00:00.000Z''),
                    (''payment_status'', JStr ''paid'')]"

definition example_payment :: doc where
  "example_payment =
     [(''_id'', JOid ''6890000000000000000000bb''),
      (''parcelId'', JStr ''64b7f0c2a1b2c3d4e5f60789''),
      (''email'', JStr ''amina@example.com''),
      (''amount'', JNum 500),
      (''paymentMethod'', JStr ''card''),
      (''transactionId'', JStr ''pi_1''),
      (''paid_at_string'', JStr (toISOString 1700000000999)),
      (''paid_at'', JDate 1700000001000)]"

definition pay_a :: request where
  "pay_a = example_request\<lparr>body := payment_body ''64b7f0c2a1b2c3d4e5f60789''\<rparr>"

definition pay_b :: request where
  "pay_b = example_request\<lparr>body := payment_body ''64b7f0c2a1b2c3d4e5f6078a''\<rparr>"

definition payments_down :: env where
  "payments_down = example_env\<lparr>store_fault := (\<lambda>c. c = PaymentsInsert)\<rparr>"

definition new_parcel :: doc where
  "new_parcel = [(''title'', JStr ''Desk''), (''created_by'', JStr ''chen@example.com''),
                 (''createdAt'', JStr ''2025-07-09T09:00:00.000Z''),
                 (''payment_status'', JStr ''unpaid'')]"

definition keyed_parcel :: doc where
  "keyed_parcel = (''_id'', JStr ''p-1001'') # new_parcel"

definition intent_request :: "json \<Rightarrow> request" where
  "intent_request a = example_request\<lparr>authorization := None, body := [(''amountInCents'', a)]\<rparr>"

lemmas example_defs = example_db_def example_env_def example_request_def payment_body_def
  parcel_a_def parcel_b_def parcel_c_def pay_a_def

lemmas iso_defs = toISOString_def civil_from_days_def date_part_def time_part_def era_def
  day_of_era_def year_of_era_def day_of_year_def month_index_def month_of_def
  pad2_def pad3_def pad4_def pad6_def digit_def

lemmas eval_defs = post_payments_def paymentDoc_def stored_def insertOne_def findOne_def matches_def
  message_def is_hex_def lower_hex_def Let_def

section \<open>Properties of the store operations\<close>

lemma set_field_lookup: "map_of (set_field k v d) k = Some v"
  by (induction d) auto

lemma set_field_same: "map_of d k = Some v \<Longrightarrow> set_field k v d = d"
  by (induction d) (auto split: if_splits)

lemma set_field_changes: "map_of d k \<noteq> Some v \<Longrightarrow> set_field k v d \<noteq> d"
  using set_field_lookup [of k v d] by auto

lemma set_field_other: "k' \<noteq> k \<Longrightarrow> map_of (set_field k v d) k' = map_of d k'"
  by (induction d) auto

lemma matches_id: "matches [(''_id'', j)] d = (map_of d ''_id'' = Some j)"
  by (simp add: matches_def)

lemma updateOne_none: "findOne q coll = None \<Longrightarrow> updateOne q k v coll = (coll, 0)"
  by (induction coll) (auto simp: findOne_def split: if_splits)

lemma updateOne_same:
  "findOne q coll = Some d \<Longrightarrow> map_of d k = Some v \<Longrightarrow> updateOne q k v coll = (coll, 0)"
  by (induction coll) (auto simp: findOne_def set_field_same split: if_splits)

lemma updateOne_modifies:
  "findOne q coll = Some d \<Longrightarrow> map_of d k \<noteq> Some v \<Longrightarrow>
   \<exists>pre post. coll = pre @ d # post \<and> (\<forall>x \<in> set pre. \<not> matches q x)
     \<and> updateOne q k v coll = (pre @ set_field k v d # post, 1)"
proof (induction coll)
  case Nil
  then show ?case by (simp add: findOne_def)
next
  case (Cons a coll)
  show ?case
  proof (cases "matches q a")
    case True
    with Cons.prems have "a = d" by (simp add: findOne_def)
    with True Cons.prems have "updateOne q k v (a # coll) = ([] @ set_field k v d # coll, 1)"
      by (simp add: set_field_changes)
    with \<open>a = d\<close> show ?thesis by (intro exI[of _ "[]"] exI[of _ coll]) simp
  next
    case False
    with Cons.prems have "findOne q coll = Some d" by (simp add: findOne_def)
    from Cons.IH [OF this Cons.prems(2)] obtain pre post where
      "coll = pre @ d # post" "\<forall>x \<in> set pre. \<not> matches q x"
      "updateOne q k v coll = (pre @ set_field k v d # post, 1)" by blast
    with False show ?thesis
      by (intro exI[of _ "a # pre"] exI[of _ post]) simp
  qed
qed

lemma findOne_split:
  "\<forall>x \<in> set pre. \<not> matches q x \<Longrightarrow> matches q d \<Longrightarrow> findOne q (pre @ d # post) = Some d"
  by (induction pre) (auto simp: findOne_def)

lemma findOne_matches: "findOne q coll = Some d \<Longrightarrow> matches q d"
  by (induction coll) (auto simp: findOne_def split: if_splits)

lemma updateOne_paid:
  assumes "findOne [(''_id'', j)] coll = Some d" and "map_of d ''payment_status'' \<noteq> Some v"
  shows "snd (updateOne [(''_id'', j)] ''payment_status'' v coll) = 1"
    and "findOne [(''_id'', j)] (fst (updateOne [(''_id'', j)] ''payment_status'' v coll))
         = Some (set_field ''payment_status'' v d)"
    and "\<exists>pre post. coll = pre @ d # post
           \<and> fst (updateOne [(''_id'', j)] ''payment_status'' v coll)
               = pre @ set_field ''payment_status'' v d # post"
proof -
  from updateOne_modifies [OF assms] obtain pre post where
    c: "coll = pre @ d # post" and n: "\<forall>x \<in> set pre. \<not> matches [(''_id'', j)] x"
    and u: "updateOne [(''_id'', j)] ''payment_status'' v coll = (pre @ set_field ''payment_status'' v d # post, 1)"
    by blast
  from u show "snd (updateOne [(''_id'', j)] ''payment_status'' v coll) = 1" by simp
  have "matches [(''_id'', j)] d" using assms(1) by (rule findOne_matches)
  then have "matches [(''_id'', j)] (set_field ''payment_status'' v d)"
    by (simp add: matches_id set_field_other)
  from findOne_split [OF n this] u
  show "findOne [(''_id'', j)] (fst (updateOne [(''_id'', j)] ''payment_status'' v coll))
         = Some (set_field ''payment_status'' v d)" by simp
  from u c show "\<exists>pre post. coll = pre @ d # post
           \<and> fst (updateOne [(''_id'', j)] ''payment_status'' v coll)
               = pre @ set_field ''payment_status'' v d # post"
    by auto
qed

lemma insertOne_fresh:
  "\<not> fault \<Longrightarrow> map_of d ''_id'' = None \<Longrightarrow>
   \<not> list_ex (\<lambda>x. map_of x ''_id'' = Some (JOid fresh)) coll \<Longrightarrow>
   insertOne fault fresh d coll = Inr (coll @ [(''_id'', JOid fresh) # d], JOid fresh)"
proof -
  assume a: "\<not> fault" "map_of d ''_id'' = None"
    "\<not> list_ex (\<lambda>x. map_of x ''_id'' = Some (JOid fresh)) coll"
  have "filter (\<lambda>(k, v). k \<noteq> ''_id'') d = d"
    using a(2) by (induction d) (auto split: if_splits)
  with a show ?thesis by (simp add: insertOne_def Let_def)
qed

lemma paymentDoc_no_id: "map_of (paymentDoc e b) ''_id'' = None"
  by (simp add: paymentDoc_def)


lemma post_payments_rejects:
  assumes "new_ObjectId (generated_id e) (map_of (body req) ''parcelId'') = Inr i"
    and "\<not> store_fault e ParcelsUpdate"
    and "findOne [(''_id'', JOid i)] (parcels s) = None
         \<or> (\<exists>p. findOne [(''_id'', JOid i)] (parcels s) = Some p
                 \<and> map_of p ''payment_status'' = Some (JStr ''paid''))"
  shows "post_payments e req s = (Responded 404 (message ''Parcel not found or already paid''), s)"
proof -
  from assms(3) have "updateOne [(''_id'', JOid i)] ''payment_status'' (JStr ''paid'') (parcels s)
      = (parcels s, 0)"
    by (auto simp: updateOne_none updateOne_same)
  with assms(1,2) show ?thesis by (simp add: post_payments_def)
qed

lemma post_payments_records:
  assumes "new_ObjectId (generated_id e) (map_of (body req) ''parcelId'') = Inr i"
    and "findOne [(''_id'', JOid i)] (parcels s) = Some p"
    and "map_of p ''payment_status'' \<noteq> Some (JStr ''paid'')"
    and "\<not> store_fault e ParcelsUpdate"
    and "insertOne (store_fault e PaymentsInsert) (insert_id e) (paymentDoc e (body req)) (payments s)
         = Inr (c, pid)"
  shows "post_payments e req s =
           (Responded 201 (Json [(''message'', JStr ''Payment recorded and parcel marked as paid''),
                                 (''insertedId'', pid)]),
            s\<lparr>parcels := fst (updateOne [(''_id'', JOid i)] ''payment_status'' (JStr ''paid'') (parcels s)),
              payments := c\<rparr>)"
proof -
  obtain ps n where u: "updateOne [(''_id'', JOid i)] ''payment_status'' (JStr ''paid'') (parcels s) = (ps, n)"
    by (cases "updateOne [(''_id'', JOid i)] ''payment_status'' (JStr ''paid'') (parcels s)")
  with updateOne_paid(1) [OF assms(2,3)] have "n = 1" by simp
  with u assms(1,4,5) show ?thesis by (simp add: post_payments_def)
qed

lemma post_payments_insert_fails:
  assumes "new_ObjectId (generated_id e) (map_of (body req) ''parcelId'') = Inr i"
    and "findOne [(''_id'', JOid i)] (parcels s) = Some p"
    and "map_of p ''payment_status'' \<noteq> Some (JStr ''paid'')"
    and "\<not> store_fault e ParcelsUpdate"
    and "insertOne (store_fault e PaymentsInsert) (insert_id e) (paymentDoc e (body req)) (payments s)
         = Inl err"
  shows "post_payments e req s =
           (Responded 500 (message ''Failed to record payment''),
            s\<lparr>parcels := fst (updateOne [(''_id'', JOid i)] ''payment_status'' (JStr ''paid'') (parcels s))\<rparr>)"
proof -
  obtain ps n where u: "updateOne [(''_id'', JOid i)] ''payment_status'' (JStr ''paid'') (parcels s) = (ps, n)"
    by (cases "updateOne [(''_id'', JOid i)] ''payment_status'' (JStr ''paid'') (parcels s)")
  with updateOne_paid(1) [OF assms(2,3)] have "n = 1" by simp
  with u assms(1,4,5) show ?thesis by (simp add: post_payments_def)
qed


lemma updateOne_cases:
  "(findOne q coll = None \<and> updateOne q k v coll = (coll, 0))
   \<or> (\<exists>d. findOne q coll = Some d \<and> map_of d k = Some v \<and> updateOne q k v coll = (coll, 0))
   \<or> (\<exists>d. findOne q coll = Some d \<and> map_of d k \<noteq> Some v \<and> snd (updateOne q k v coll) = 1)"
proof (cases "findOne q coll")
  case None
  then show ?thesis by (simp add: updateOne_none)
next
  case (Some d)
  show ?thesis
  proof (cases "map_of d k = Some v")
    case True
    with Some show ?thesis by (simp add: updateOne_same)
  next
    case False
    from updateOne_modifies [OF Some False] Some False show ?thesis by auto
  qed
qed

lemma paid_after_success:
  assumes "post_payments e0 req s0 = (Responded 201 b, s)"
    and "new_ObjectId (generated_id e0) (map_of (body req) ''parcelId'') = Inr i"
  shows "\<exists>p. findOne [(''_id'', JOid i)] (parcels s) = Some p
             \<and> map_of p ''payment_status'' = Some (JStr ''paid'')"
proof -
  let ?q = "[(''_id'', JOid i)]"
  let ?u = "updateOne ?q ''payment_status'' (JStr ''paid'') (parcels s0)"
  from assms have n: "snd ?u \<noteq> 0" and ps: "parcels s = fst ?u"
    by (auto simp: post_payments_def message_def split: if_splits prod.splits sum.splits)
  from updateOne_cases [of ?q "parcels s0" "''payment_status''" "JStr ''paid''"] n
  obtain d where d: "findOne ?q (parcels s0) = Some d" "map_of d ''payment_status'' \<noteq> Some (JStr ''paid'')"
    by auto
  from updateOne_paid(2) [OF d] ps
  have "findOne ?q (parcels s) = Some (set_field ''payment_status'' (JStr ''paid'') d)" by simp
  then show ?thesis by (simp add: set_field_lookup)
qed

section \<open>The payment workflow\<close>

text \<open>
  C1. A payment submission whose \<open>parcelId\<close> denotes the identifier of a parcel in the
  store whose \<open>payment_status\<close> is not \<open>paid\<close> is answered with status 201 and a
  body holding the success message and the inserted identifier; the parcel found under
  that identifier now has \<open>payment_status = paid\<close> and no other parcel has changed;
  the payments collection grows by exactly one record, which holds the submitted
  \<open>parcelId\<close>, \<open>email\<close>, \<open>amount\<close>, \<open>paymentMethod\<close> and \<open>transactionId\<close> and
  the two timestamp fields; the other collections are untouched. This is the course of
  the handler when neither store call fails and the driver generates an unused identifier.
\<close>

theorem payment_recorded:
  assumes "new_ObjectId (generated_id e) (map_of (body req) ''parcelId'') = Inr i"
    and "findOne [(''_id'', JOid i)] (parcels s) = Some p"
    and "map_of p ''payment_status'' \<noteq> Some (JStr ''paid'')"
    and "\<not> store_fault e ParcelsUpdate"
    and "\<not> store_fault e PaymentsInsert"
    and "\<not> list_ex (\<lambda>x. map_of x ''_id'' = Some (JOid (insert_id e))) (payments s)"
  shows "fst (post_payments e req s) =
           Responded 201 (Json [(''message'', JStr ''Payment recorded and parcel marked as paid''),
                                (''insertedId'', JOid (insert_id e))])
       \<and> findOne [(''_id'', JOid i)] (parcels (snd (post_payments e req s)))
           = Some (set_field ''payment_status'' (JStr ''paid'') p)
       \<and> map_of (set_field ''payment_status'' (JStr ''paid'') p) ''payment_status'' = Some (JStr ''paid'')
       \<and> (\<exists>pre post. parcels s = pre @ p # post
             \<and> parcels (snd (post_payments e req s))
                 = pre @ set_field ''payment_status'' (JStr ''paid'') p # post)
       \<and> payments (snd (post_payments e req s)) =
           payments s @
           [[(''_id'', JOid (insert_id e)),
             (''parcelId'', stored (map_of (body req) ''parcelId'')),
             (''email'', stored (map_of (body req) ''email'')),
             (''amount'', stored (map_of (body req) ''amount'')),
             (''paymentMethod'', stored (map_of (body req) ''paymentMethod'')),
             (''transactionId'', stored (map_of (body req) ''transactionId'')),
             (''paid_at_string'', JStr (toISOString (clock_first e))),
             (''paid_at'', JDate (clock_second e))]]
       \<and> users (snd (post_payments e req s)) = users s
       \<and> riders (snd (post_payments e req s)) = riders s"
proof -
  have ins: "insertOne (store_fault e PaymentsInsert) (insert_id e) (paymentDoc e (body req)) (payments s)
      = Inr (payments s @ [(''_id'', JOid (insert_id e)) # paymentDoc e (body req)], JOid (insert_id e))"
    using assms(5,6) by (intro insertOne_fresh) (simp_all add: paymentDoc_no_id)
  note r = post_payments_records [OF assms(1-4) ins]
  show ?thesis
    using updateOne_paid(2,3) [OF assms(2,3)]
    by (simp add: r set_field_lookup paymentDoc_def)
qed

theorem payment_recorded_witness:
  "post_payments example_env pay_a example_db
   = (Responded 201 (Json [(''message'', JStr ''Payment recorded and parcel marked as paid''),
                           (''insertedId'', JOid ''6890000000000000000000bb'')]),
      \<lparr>users = [],
       parcels = [parcel_a_paid, parcel_b, parcel_c],
       payments =
         [[(''_id'', JOid ''6890000000000000000000bb''),
           (''parcelId'', JStr ''64b7f0c2a1b2c3d4e5f60789''),
           (''email'', JStr ''amina@example.com''),
           (''amount'', JNum 500),
           (''paymentMethod'', JStr ''card''),
           (''transactionId'', JStr ''pi_1''),
           (''paid_at_string'', JStr (toISOString 1700000000999)),
           (''paid_at'', JDate 1700000001000)]],
       riders = []\<rparr>)"
proof -
  have h1: "new_ObjectId (generated_id example_env) (map_of (body pay_a) ''parcelId'')
            = Inr ''64b7f0c2a1b2c3d4e5f60789''"
    by (simp add: example_defs is_hex_def lower_hex_def)
  have h2: "findOne [(''_id'', JOid ''64b7f0c2a1b2c3d4e5f60789'')] (parcels example_db) = Some parcel_a"
    by (simp add: example_defs findOne_def matches_def)
  have h3: "map_of parcel_a ''payment_status'' \<noteq> Some (JStr ''paid'')"
    by (simp add: example_defs)
  have h4: "\<not> store_fault example_env ParcelsUpdate" "\<not> store_fault example_env PaymentsInsert"
    by (simp_all add: example_defs)
  have h5: "\<not> list_ex (\<lambda>x. map_of x ''_id'' = Some (JOid (insert_id example_env))) (payments example_db)"
    by (simp add: example_defs)
  have p: "set_field ''payment_status'' (JStr ''paid'') parcel_a = parcel_a_paid"
    by (simp add: parcel_a_def parcel_a_paid_def)
  from payment_recorded [OF h1 h2 h3 h4 h5]
  have "fst (post_payments example_env pay_a example_db) =
           Responded 201 (Json [(''message'', JStr ''Payment recorded and parcel marked as paid''),
                                (''insertedId'', JOid ''6890000000000000000000bb'')])"
    and "payments (snd (post_payments example_env pay_a example_db)) =
         [[(''_id'', JOid ''6890000000000000000000bb''),
           (''parcelId'', JStr ''64b7f0c2a1b2c3d4e5f60789''),
           (''email'', JStr ''amina@example.com''),
           (''amount'', JNum 500),
           (''paymentMethod'', JStr ''card''),
           (''transactionId'', JStr ''pi_1''),
           (''paid_at_string'', JStr (toISOString 1700000000999)),
           (''paid_at'', JDate 1700000001000)]]"
    and "users (snd (post_payments example_env pay_a example_db)) = []"
    and "riders (snd (post_payments example_env pay_a example_db)) = []"
    by (simp_all add: example_defs stored_def)
  moreover have "parcels (snd (post_payments example_env pay_a example_db))
      = [parcel_a_paid, parcel_b, parcel_c]"
    by (simp add: example_defs eval_defs parcel_a_paid_def)
  ultimately show ?thesis
    by (cases "post_payments example_env pay_a example_db",
        cases "snd (post_payments example_env pay_a example_db)") simp
qed

text \<open>
  C2. When the status update modifies no document, because no parcel has the identifier
  that \<open>parcelId\<close> denotes or because that parcel is already \<open>paid\<close>, the handler
  answers 404 with \<open>Parcel not found or already paid\<close> and leaves every collection as
  it was; no payment record is inserted. In particular, in the state that a successful
  submission leaves behind, a second submission with the same \<open>parcelId\<close> is rejected
  in this way.
\<close>

theorem payment_rejected:
  assumes "new_ObjectId (generated_id e) (map_of (body req) ''parcelId'') = Inr i"
    and "\<not> store_fault e ParcelsUpdate"
  shows "(findOne [(''_id'', JOid i)] (parcels s) = None
          \<or> (\<exists>p. findOne [(''_id'', JOid i)] (parcels s) = Some p
                  \<and> map_of p ''payment_status'' = Some (JStr ''paid''))
          \<longrightarrow> post_payments e req s
                = (Responded 404 (message ''Parcel not found or already paid''), s))
       \<and> (\<forall>e0 s0 b.
            post_payments e0 req s0 = (Responded 201 b, s)
            \<and> new_ObjectId (generated_id e0) (map_of (body req) ''parcelId'') = Inr i
            \<longrightarrow> post_payments e req s
                  = (Responded 404 (message ''Parcel not found or already paid''), s))"
proof (intro conjI impI allI)
  assume "findOne [(''_id'', JOid i)] (parcels s) = None
          \<or> (\<exists>p. findOne [(''_id'', JOid i)] (parcels s) = Some p
                  \<and> map_of p ''payment_status'' = Some (JStr ''paid''))"
  with assms show "post_payments e req s
      = (Responded 404 (message ''Parcel not found or already paid''), s)"
    by (rule post_payments_rejects)
next
  fix e0 s0 b
  assume a: "post_payments e0 req s0 = (Responded 201 b, s)
            \<and> new_ObjectId (generated_id e0) (map_of (body req) ''parcelId'') = Inr i"
  then have "\<exists>p. findOne [(''_id'', JOid i)] (parcels s) = Some p
             \<and> map_of p ''payment_status'' = Some (JStr ''paid'')"
    using paid_after_success by blast
  with assms show "post_payments e req s
      = (Responded 404 (message ''Parcel not found or already paid''), s)"
    by (intro post_payments_rejects) auto
qed


lemma example_submission:
  "post_payments example_env pay_a example_db
   = (Responded 201 (Json [(''message'', JStr ''Payment recorded and parcel marked as paid''),
                           (''insertedId'', JOid ''6890000000000000000000bb'')]),
      \<lparr>users = [], parcels = [parcel_a_paid, parcel_b, parcel_c], payments = [example_payment],
       riders = []\<rparr>)"
  by (simp add: example_defs eval_defs parcel_a_paid_def example_payment_def)

theorem payment_rejected_witness:
  "post_payments example_env pay_b example_db
     = (Responded 404 (Json [(''message'', JStr ''Parcel not found or already paid'')]), example_db)
   \<and> post_payments example_env pay_a
       \<lparr>users = [], parcels = [parcel_a_paid, parcel_b, parcel_c], payments = [example_payment],
        riders = []\<rparr>
     = (Responded 404 (Json [(''message'', JStr ''Parcel not found or already paid'')]),
        \<lparr>users = [], parcels = [parcel_a_paid, parcel_b, parcel_c], payments = [example_payment],
         riders = []\<rparr>)"
proof -
  let ?s1 = "\<lparr>users = [], parcels = [parcel_a_paid, parcel_b, parcel_c],
              payments = [example_payment], riders = []\<rparr>"
  have b1: "new_ObjectId (generated_id example_env) (map_of (body pay_b) ''parcelId'')
            = Inr ''64b7f0c2a1b2c3d4e5f6078a''"
    by (simp add: example_defs pay_b_def is_hex_def lower_hex_def)
  have a1: "new_ObjectId (generated_id example_env) (map_of (body pay_a) ''parcelId'')
            = Inr ''64b7f0c2a1b2c3d4e5f60789''"
    by (simp add: example_defs is_hex_def lower_hex_def)
  have up: "\<not> store_fault example_env ParcelsUpdate"
    by (simp add: example_defs)
  have b2: "findOne [(''_id'', JOid ''64b7f0c2a1b2c3d4e5f6078a'')] (parcels example_db) = Some parcel_b
            \<and> map_of parcel_b ''payment_status'' = Some (JStr ''paid'')"
    by (simp add: example_defs findOne_def matches_def)
  from payment_rejected [OF b1 up, of example_db] b2
  have first: "post_payments example_env pay_b example_db
     = (Responded 404 (message ''Parcel not found or already paid''), example_db)"
    by blast
  from payment_rejected [OF a1 up, of ?s1] example_submission a1
  have second: "post_payments example_env pay_a ?s1
     = (Responded 404 (message ''Parcel not found or already paid''), ?s1)"
    by blast
  from first second show ?thesis by (simp add: message_def)
qed

text \<open>
  C3. When the insertion of the payment record throws after the status update has marked
  the parcel \<open>paid\<close>, the handler answers 500 with \<open>Failed to record payment\<close> and
  writes nothing more: the parcel stays \<open>paid\<close> and the payments collection is as it
  was, so no record of the payment exists.
\<close>

theorem insertion_failure_not_compensated:
  assumes "new_ObjectId (generated_id e) (map_of (body req) ''parcelId'') = Inr i"
    and "findOne [(''_id'', JOid i)] (parcels s) = Some p"
    and "map_of p ''payment_status'' \<noteq> Some (JStr ''paid'')"
    and "\<not> store_fault e ParcelsUpdate"
    and "insertOne (store_fault e PaymentsInsert) (insert_id e) (paymentDoc e (body req)) (payments s)
         = Inl err"
  shows "fst (post_payments e req s) = Responded 500 (message ''Failed to record payment'')
       \<and> findOne [(''_id'', JOid i)] (parcels (snd (post_payments e req s)))
           = Some (set_field ''payment_status'' (JStr ''paid'') p)
       \<and> map_of (set_field ''payment_status'' (JStr ''paid'') p) ''payment_status'' = Some (JStr ''paid'')
       \<and> payments (snd (post_payments e req s)) = payments s
       \<and> users (snd (post_payments e req s)) = users s
       \<and> riders (snd (post_payments e req s)) = riders s"
  using updateOne_paid(2) [OF assms(2,3)]
  by (simp add: post_payments_insert_fails [OF assms] set_field_lookup)

theorem insertion_failure_not_compensated_witness:
  "insertOne (store_fault payments_down PaymentsInsert) (insert_id payments_down)
     (paymentDoc payments_down (body pay_a)) (payments example_db) = Inl StoreFault
   \<and> post_payments payments_down pay_a example_db
     = (Responded 500 (Json [(''message'', JStr ''Failed to record payment'')]),
        \<lparr>users = [], parcels = [parcel_a_paid, parcel_b, parcel_c], payments = [], riders = []\<rparr>)"
proof -
  have h1: "new_ObjectId (generated_id payments_down) (map_of (body pay_a) ''parcelId'')
            = Inr ''64b7f0c2a1b2c3d4e5f60789''"
    by (simp add: example_defs payments_down_def is_hex_def lower_hex_def)
  have h2: "findOne [(''_id'', JOid ''64b7f0c2a1b2c3d4e5f60789'')] (parcels example_db) = Some parcel_a"
    by (simp add: example_defs findOne_def matches_def)
  have h3: "map_of parcel_a ''payment_status'' \<noteq> Some (JStr ''paid'')"
    by (simp add: example_defs)
  have h4: "\<not> store_fault payments_down ParcelsUpdate"
    by (simp add: example_defs payments_down_def)
  have h5: "insertOne (store_fault payments_down PaymentsInsert) (insert_id payments_down)
     (paymentDoc payments_down (body pay_a)) (payments example_db) = Inl StoreFault"
    by (simp add: example_defs payments_down_def insertOne_def)
  from insertion_failure_not_compensated [OF h1 h2 h3 h4 h5]
  have "fst (post_payments payments_down pay_a example_db)
        = Responded 500 (Json [(''message'', JStr ''Failed to record payment'')])"
    by (simp add: message_def)
  moreover have "snd (post_payments payments_down pay_a example_db)
        = \<lparr>users = [], parcels = [parcel_a_paid, parcel_b, parcel_c], payments = [], riders = []\<rparr>"
    by (simp add: example_defs eval_defs payments_down_def parcel_a_paid_def)
  ultimately show ?thesis using h5 by (simp add: prod_eq_iff)
qed

text \<open>
  C10. When \<open>parcelId\<close> is not a syntactically valid identifier, so that constructing
  the identifier throws before any store call, the handler answers 500 with
  \<open>Failed to record payment\<close> (not 404) and changes no collection.
\<close>

theorem invalid_parcelId_500:
  assumes "new_ObjectId (generated_id e) (map_of (body req) ''parcelId'') = Inl err"
  shows "post_payments e req s = (Responded 500 (message ''Failed to record payment''), s)"
  using assms by (simp add: post_payments_def)

theorem invalid_parcelId_500_witness:
  "new_ObjectId (generated_id example_env)
     (map_of (body (example_request\<lparr>body := payment_body ''abc''\<rparr>)) ''parcelId'') = Inl BSONError
   \<and> post_payments example_env (example_request\<lparr>body := payment_body ''abc''\<rparr>) example_db
       = (Responded 500 (Json [(''message'', JStr ''Failed to record payment'')]), example_db)"
proof -
  have h: "new_ObjectId (generated_id example_env)
     (map_of (body (example_request\<lparr>body := payment_body ''abc''\<rparr>)) ''parcelId'') = Inl BSONError"
    by (simp add: example_defs)
  from invalid_parcelId_500 [OF h, of example_db] h show ?thesis
    by (simp add: message_def)
qed



section \<open>The auth gate on the routes\<close>

lemma bearer_token_nonempty: "bearer_token h = Some token \<Longrightarrow> h \<noteq> []"
  by (auto simp: bearer_token_def)

text \<open>
  C4. On every route registered with the gate: a request without an
  \<open>Authorization\<close> header is answered 401 and nothing is sent to the identity verifier;
  a request whose header carries a token that the verifier rejects is answered 403; and
  when the verifier accepts the token, the decoded claims are attached to the request and
  the route's handler runs on it. A rejected request leaves the database as it was.
\<close>

theorem auth_gate:
  assumes "auth_gated r"
  shows "(authorization req = None
          \<longrightarrow> serve e r req s = ([], Responded 401 (message ''unauthorized access''), s))
       \<and> (\<forall>h token.
            authorization req = Some h \<and> bearer_token h = Some token \<and> verifyIdToken e token = None
            \<longrightarrow> serve e r req s = ([token], Responded 403 (message ''forbidden access''), s))
       \<and> (\<forall>h token claims.
            authorization req = Some h \<and> bearer_token h = Some token
            \<and> verifyIdToken e token = Some claims
            \<longrightarrow> serve e r req s = ([token], handler r e (req\<lparr>decoded := Some claims\<rparr>) s))"
  using assms by (auto simp: serve_def verifyFBToken_def dest: bearer_token_nonempty)

theorem auth_gate_witness:
  "serve example_env PostPayments (pay_a\<lparr>authorization := None\<rparr>) example_db
     = ([], Responded 401 (Json [(''message'', JStr ''unauthorized access'')]), example_db)
   \<and> serve example_env PostPayments (pay_a\<lparr>authorization := Some ''Bearer expired-token''\<rparr>) example_db
     = ([''expired-token''], Responded 403 (Json [(''message'', JStr ''forbidden access'')]), example_db)
   \<and> serve example_env PostPayments pay_a example_db
     = ([''good-token''],
        post_payments example_env (pay_a\<lparr>decoded := Some [(''uid'', JStr ''u1'')]\<rparr>) example_db)"
proof -
  have g: "auth_gated PostPayments" by simp
  have n: "authorization (pay_a\<lparr>authorization := None\<rparr>) = None" by simp
  have x: "authorization (pay_a\<lparr>authorization := Some ''Bearer expired-token''\<rparr>)
             = Some ''Bearer expired-token''
           \<and> bearer_token ''Bearer expired-token'' = Some ''expired-token''
           \<and> verifyIdToken example_env ''expired-token'' = None"
    by (simp add: bearer_token_def example_defs)
  have y: "authorization pay_a = Some ''Bearer good-token''
           \<and> bearer_token ''Bearer good-token'' = Some ''good-token''
           \<and> verifyIdToken example_env ''good-token'' = Some [(''uid'', JStr ''u1'')]"
    by (simp add: bearer_token_def example_defs)
  from auth_gate [OF g, of "pay_a\<lparr>authorization := None\<rparr>" example_env example_db] n
  have "serve example_env PostPayments (pay_a\<lparr>authorization := None\<rparr>) example_db
     = ([], Responded 401 (message ''unauthorized access''), example_db)" by blast
  moreover
  from auth_gate [OF g, of "pay_a\<lparr>authorization := Some ''Bearer expired-token''\<rparr>" example_env example_db] x
  have "serve example_env PostPayments (pay_a\<lparr>authorization := Some ''Bearer expired-token''\<rparr>) example_db
     = ([''expired-token''], Responded 403 (message ''forbidden access''), example_db)" by blast
  moreover
  from auth_gate [OF g, of pay_a example_env example_db] y
  have "serve example_env PostPayments pay_a example_db
     = ([''good-token''], handler PostPayments example_env (pay_a\<lparr>decoded := Some [(''uid'', JStr ''u1'')]\<rparr>) example_db)"
    by blast
  ultimately show ?thesis by (simp add: message_def)
qed

section \<open>Payment intents\<close>

text \<open>
  C7. \<open>POST /create-payment-intent\<close> forwards the body's \<open>amountInCents\<close>, whatever
  it is, to the gateway, with currency \<open>usd\<close> and payment method \<open>card\<close>. When the
  gateway answers with an intent, the response is a JSON body whose \<open>clientSecret\<close> is
  the intent's client secret, a non-empty string whenever the gateway's is; when the
  gateway throws, the response is 500 with the error's message in the field \<open>error\<close>.
  The route is registered without the auth gate: nothing is sent to the identity verifier
  and the handler runs on the request as it came.
\<close>

theorem payment_intent_response:
  "(\<forall>intent.
      paymentIntents_create e
        \<lparr>amount = map_of (body req) ''amountInCents'', currency = ''usd'',
         payment_method_types = [''card'']\<rparr> = Inr intent
      \<longrightarrow> create_payment_intent e req s
            = (Responded 200 (Json [(''clientSecret'', client_secret intent)]), s)
          \<and> (\<forall>secret. client_secret intent = JStr secret \<and> secret \<noteq> []
                \<longrightarrow> create_payment_intent e req s
                      = (Responded 200 (Json [(''clientSecret'', JStr secret)]), s)))
   \<and> (\<forall>m.
        paymentIntents_create e
          \<lparr>amount = map_of (body req) ''amountInCents'', currency = ''usd'',
           payment_method_types = [''card'']\<rparr> = Inl m
        \<longrightarrow> create_payment_intent e req s = (Responded 500 (Json [(''error'', JStr m)]), s))
   \<and> \<not> auth_gated CreatePaymentIntent
   \<and> serve e CreatePaymentIntent req s = ([], create_payment_intent e req s)"
  by (simp add: create_payment_intent_def serve_def)

theorem payment_intent_response_witness:
  "create_payment_intent example_env (intent_request (JNum 500)) example_db
     = (Responded 200 (Json [(''clientSecret'', JStr ''pi_1_secret_2'')]), example_db)
   \<and> create_payment_intent example_env (intent_request (JNum (- 5))) example_db
     = (Responded 500 (Json [(''error'', JStr ''Invalid integer'')]), example_db)
   \<and> serve example_env CreatePaymentIntent (intent_request (JNum 500)) example_db
     = ([], Responded 200 (Json [(''clientSecret'', JStr ''pi_1_secret_2'')]), example_db)"
proof -
  have ok: "paymentIntents_create example_env
        \<lparr>amount = map_of (body (intent_request (JNum 500))) ''amountInCents'', currency = ''usd'',
         payment_method_types = [''card'']\<rparr> = Inr \<lparr>client_secret = JStr ''pi_1_secret_2''\<rparr>"
    by (simp add: example_defs intent_request_def)
  have bad: "paymentIntents_create example_env
        \<lparr>amount = map_of (body (intent_request (JNum (- 5)))) ''amountInCents'', currency = ''usd'',
         payment_method_types = [''card'']\<rparr> = Inl ''Invalid integer''"
    by (simp add: example_defs intent_request_def)
  from payment_intent_response [of example_env "intent_request (JNum 500)" example_db] ok
  have "create_payment_intent example_env (intent_request (JNum 500)) example_db
     = (Responded 200 (Json [(''clientSecret'', JStr ''pi_1_secret_2'')]), example_db)
     \<and> serve example_env CreatePaymentIntent (intent_request (JNum 500)) example_db
     = ([], create_payment_intent example_env (intent_request (JNum 500)) example_db)"
    by simp
  moreover
  from payment_intent_response [of example_env "intent_request (JNum (- 5))" example_db] bad
  have "create_payment_intent example_env (intent_request (JNum (- 5))) example_db
     = (Responded 500 (Json [(''error'', JStr ''Invalid integer'')]), example_db)"
    by blast
  ultimately show ?thesis by simp
qed

section \<open>Parcels\<close>

lemma deleteOne_none: "findOne q coll = None \<Longrightarrow> deleteOne q coll = (coll, 0)"
  by (induction coll) (auto simp: findOne_def split: if_splits)

lemma new_ObjectId_hex:
  "length x = 24 \<Longrightarrow> list_all is_hex x \<Longrightarrow> new_ObjectId g (Some (JStr x)) = Inr (map lower_hex x)"
  by simp

lemma is_lower_hex_is_hex: "is_lower_hex c \<Longrightarrow> is_hex c"
  by (auto simp: is_lower_hex_def is_hex_def)

lemma lower_hex_fixes: "is_lower_hex c \<Longrightarrow> lower_hex c = c"
  by (auto simp: is_lower_hex_def lower_hex_def)

lemma new_ObjectId_valid:
  assumes "valid_oid i"
  shows "new_ObjectId g (Some (JStr i)) = Inr i"
proof -
  from assms have len: "length i = 24" and low: "\<forall>c \<in> set i. is_lower_hex c"
    by (simp_all add: valid_oid_def list_all_iff)
  from low have "list_all is_hex i"
    by (simp add: list_all_iff is_lower_hex_is_hex)
  moreover from low have "map lower_hex i = i"
    by (intro map_idI) (simp add: lower_hex_fixes)
  ultimately show ?thesis using len by simp
qed

lemma findOne_appended:
  "\<not> list_ex (\<lambda>x. map_of x ''_id'' = Some j) coll \<Longrightarrow> map_of d ''_id'' = Some j \<Longrightarrow>
   findOne [(''_id'', j)] (coll @ [d]) = Some d"
  by (induction coll) (auto simp: findOne_def matches_def)

text \<open>
  C8, as stated, fails for an id that is not a well-formed identifier: no parcel has the
  id \<open>abc\<close>, yet \<open>DELETE /parcels/abc\<close> throws while constructing the identifier,
  in a handler without \<open>catch\<close>, and sends no deletion result.
\<close>

theorem delete_missing_parcel_counterexample:
  "list_all (\<lambda>d. map_of d ''_id'' \<noteq> Some (JOid ''abc'') \<and> map_of d ''_id'' \<noteq> Some (JStr ''abc''))
     (parcels example_db)
   \<and> delete_parcel example_env (example_request\<lparr>params_id := ''abc''\<rparr>) example_db
     = (Unhandled BSONError, example_db)"
  by (simp add: delete_parcel_def example_defs)

text \<open>
  C8, amended. \<open>DELETE /parcels/:id\<close> with a syntactically valid identifier (24
  hexadecimal digits) that no parcel document has: the handler answers with status 200
  and the store's deletion result, which reports zero documents removed, and the parcels
  collection (like every other) is as it was.
\<close>

theorem delete_missing_parcel:
  assumes "length (params_id req) = 24"
    and "list_all is_hex (params_id req)"
    and "findOne [(''_id'', JOid (map lower_hex (params_id req)))] (parcels s) = None"
    and "\<not> store_fault e ParcelsDelete"
  shows "delete_parcel e req s
         = (Responded 200 (Json [(''acknowledged'', JBool True), (''deletedCount'', JNum 0)]), s)"
  using assms by (simp add: delete_parcel_def deleteOne_none delete_result_def)

theorem delete_missing_parcel_witness:
  "findOne [(''_id'', JOid ''64b7f0c2a1b2c3d4e5f60700'')] (parcels example_db) = None
   \<and> delete_parcel example_env (example_request\<lparr>params_id := ''64b7f0c2a1b2c3d4e5f60700''\<rparr>) example_db
     = (Responded 200 (Json [(''acknowledged'', JBool True), (''deletedCount'', JNum 0)]), example_db)"
proof -
  let ?req = "example_request\<lparr>params_id := ''64b7f0c2a1b2c3d4e5f60700''\<rparr>"
  have h1: "length (params_id ?req) = 24" by simp
  have h2: "list_all is_hex (params_id ?req)" by (simp add: is_hex_def)
  have l: "map lower_hex (params_id ?req) = ''64b7f0c2a1b2c3d4e5f60700''"
    by (simp add: lower_hex_def)
  have f: "findOne [(''_id'', JOid ''64b7f0c2a1b2c3d4e5f60700'')] (parcels example_db) = None"
    by (simp add: example_defs findOne_def matches_def)
  with l have h3: "findOne [(''_id'', JOid (map lower_hex (params_id ?req)))] (parcels example_db) = None"
    by simp
  have h4: "\<not> store_fault example_env ParcelsDelete" by (simp add: example_defs)
  from delete_missing_parcel [OF h1 h2 h3 h4] f show ?thesis by simp
qed

lemma find_desc_mset: "mset (find_desc q k coll) = mset (filter (matches q) coll)"
  by (simp add: find_desc_def)

lemma find_desc_descending: "descending k (find_desc q k coll)"
proof -
  have "sorted (map (sort_field k) (sort_key (sort_field k) (filter (matches q) coll)))"
    by (rule sorted_sort_key)
  then show ?thesis
    by (simp add: descending_def find_desc_def sorted_wrt_rev sorted_map)
qed

text \<open>
  C6. \<open>GET /parcels?email=E\<close> with an email \<open>E\<close> (a non-empty string) answers with
  exactly the parcels whose \<open>created_by\<close> is \<open>E\<close>, each once, in descending order of
  \<open>createdAt\<close>; without an \<open>email\<close> parameter it answers with all parcels in that
  order. The database is not changed.
\<close>

theorem list_parcels:
  assumes "\<not> store_fault e ParcelsFind"
  shows "(\<forall>E. query_email req = Some E \<and> E \<noteq> []
            \<longrightarrow> (\<exists>r. get_parcels e req s = (Responded 200 (JsonList r), s)
                    \<and> mset r = mset (filter (\<lambda>d. map_of d ''created_by'' = Some (JStr E)) (parcels s))
                    \<and> descending ''createdAt'' r))
       \<and> (query_email req = None
            \<longrightarrow> (\<exists>r. get_parcels e req s = (Responded 200 (JsonList r), s)
                    \<and> mset r = mset (parcels s)
                    \<and> descending ''createdAt'' r))"
  using assms
  by (simp add: get_parcels_def email_query_def find_desc_mset find_desc_descending matches_def)

theorem list_parcels_witness:
  "(\<exists>r. get_parcels example_env (example_request\<lparr>query_email := Some ''amina@example.com''\<rparr>) example_db
          = (Responded 200 (JsonList r), example_db)
        \<and> mset r = {#parcel_a, parcel_c#}
        \<and> descending ''createdAt'' r)
   \<and> get_parcels example_env (example_request\<lparr>query_email := Some ''amina@example.com''\<rparr>) example_db
     = (Responded 200 (JsonList [parcel_c, parcel_a]), example_db)
   \<and> get_parcels example_env example_request example_db
     = (Responded 200 (JsonList [parcel_c, parcel_b, parcel_a]), example_db)"
proof -
  let ?req = "example_request\<lparr>query_email := Some ''amina@example.com''\<rparr>"
  have h: "\<not> store_fault example_env ParcelsFind" by (simp add: example_defs)
  have q: "query_email ?req = Some ''amina@example.com'' \<and> ''amina@example.com'' \<noteq> []"
    by simp
  have flt: "filter (\<lambda>d. map_of d ''created_by'' = Some (JStr ''amina@example.com'')) (parcels example_db)
             = [parcel_a, parcel_c]"
    by (simp add: example_defs)
  from list_parcels [OF h, of ?req example_db] q
  obtain r where r: "get_parcels example_env ?req example_db = (Responded 200 (JsonList r), example_db)"
    "mset r = mset (filter (\<lambda>d. map_of d ''created_by'' = Some (JStr ''amina@example.com''))
                      (parcels example_db))"
    "descending ''createdAt'' r"
    by blast
  from r(2) have m: "mset r = {#parcel_a, parcel_c#}"
    by (simp add: flt)
  have ev1: "get_parcels example_env ?req example_db
             = (Responded 200 (JsonList [parcel_c, parcel_a]), example_db)"
    by (simp add: get_parcels_def email_query_def find_desc_def matches_def sort_field_def
        bson_key_def example_defs)
  have ev2: "get_parcels example_env example_request example_db
             = (Responded 200 (JsonList [parcel_c, parcel_b, parcel_a]), example_db)"
    by (simp add: get_parcels_def email_query_def find_desc_def matches_def sort_field_def
        bson_key_def example_defs)
  from r(1,3) m ev1 ev2 show ?thesis by blast
qed

lemma empty_email_lists_all:
  "get_parcels e (req\<lparr>query_email := Some []\<rparr>) s = get_parcels e (req\<lparr>query_email := None\<rparr>) s"
  by (simp add: get_parcels_def email_query_def)

text \<open>
  C5, as stated, fails for a payload that brings its own \<open>_id\<close>: the store keeps that
  value, the insert returns it, and \<open>GET /parcels/p-1001\<close> cannot even construct an
  identifier from it.
\<close>

theorem parcel_round_trip_counterexample:
  "fst (post_parcels example_env (example_request\<lparr>body := keyed_parcel\<rparr>) example_db)
     = Responded 201 (Json [(''acknowledged'', JBool True), (''insertedId'', JStr ''p-1001'')])
   \<and> fst (get_parcel example_env (example_request\<lparr>params_id := ''p-1001''\<rparr>)
            (snd (post_parcels example_env (example_request\<lparr>body := keyed_parcel\<rparr>) example_db)))
     = Unhandled BSONError"
  by (simp add: post_parcels_def get_parcel_def insertOne_def insert_result_def example_defs
      keyed_parcel_def new_parcel_def Let_def)

text \<open>
  C5, amended. For every parcel creation payload without an \<open>_id\<close> field,
  \<open>POST /parcels\<close> answers 201 with the identifier the driver generated, and
  \<open>GET /parcels/:id\<close> with that identifier then answers with the payload extended, in
  front, by \<open>_id\<close> holding that identifier. (The driver's identifier is well formed and
  not yet in the collection, and neither store call fails.)
\<close>

theorem parcel_round_trip:
  assumes "map_of (body req) ''_id'' = None"
    and "valid_oid (insert_id e)"
    and "\<not> list_ex (\<lambda>x. map_of x ''_id'' = Some (JOid (insert_id e))) (parcels s)"
    and "\<not> store_fault e ParcelsInsert"
    and "\<not> store_fault e' ParcelsFindOne"
    and "params_id req' = insert_id e"
  shows "fst (post_parcels e req s)
           = Responded 201 (Json [(''acknowledged'', JBool True), (''insertedId'', JOid (insert_id e))])
       \<and> get_parcel e' req' (snd (post_parcels e req s))
           = (Responded 200 (Json ((''_id'', JOid (insert_id e)) # body req)),
              snd (post_parcels e req s))"
proof -
  have ins: "insertOne (store_fault e ParcelsInsert) (insert_id e) (body req) (parcels s)
      = Inr (parcels s @ [(''_id'', JOid (insert_id e)) # body req], JOid (insert_id e))"
    using assms(4,1,3) by (rule insertOne_fresh)
  have f: "findOne [(''_id'', JOid (insert_id e))] (parcels s @ [(''_id'', JOid (insert_id e)) # body req])
      = Some ((''_id'', JOid (insert_id e)) # body req)"
    using assms(3) by (rule findOne_appended) simp
  show ?thesis
    using assms(5,6) f
    by (simp add: post_parcels_def get_parcel_def ins insert_result_def
        new_ObjectId_valid [OF assms(2)] del: new_ObjectId.simps)
qed

theorem parcel_round_trip_witness:
  "fst (post_parcels example_env (example_request\<lparr>body := new_parcel\<rparr>) example_db)
     = Responded 201 (Json [(''acknowledged'', JBool True),
                            (''insertedId'', JOid ''6890000000000000000000bb'')])
   \<and> get_parcel example_env (example_request\<lparr>params_id := ''6890000000000000000000bb''\<rparr>)
       (snd (post_parcels example_env (example_request\<lparr>body := new_parcel\<rparr>) example_db))
     = (Responded 200 (Json ((''_id'', JOid ''6890000000000000000000bb'') # new_parcel)),
        \<lparr>users = [],
         parcels = [parcel_a, parcel_b, parcel_c, (''_id'', JOid ''6890000000000000000000bb'') # new_parcel],
         payments = [], riders = []\<rparr>)"
proof -
  let ?post = "example_request\<lparr>body := new_parcel\<rparr>"
  let ?get = "example_request\<lparr>params_id := ''6890000000000000000000bb''\<rparr>"
  have h1: "map_of (body ?post) ''_id'' = None" by (simp add: example_defs new_parcel_def)
  have h2: "valid_oid (insert_id example_env)"
    by (simp add: example_defs valid_oid_def is_lower_hex_def)
  have h3: "\<not> list_ex (\<lambda>x. map_of x ''_id'' = Some (JOid (insert_id example_env))) (parcels example_db)"
    by (simp add: example_defs)
  have h4: "\<not> store_fault example_env ParcelsInsert" "\<not> store_fault example_env ParcelsFindOne"
    by (simp_all add: example_defs)
  have h5: "params_id ?get = insert_id example_env" by (simp add: example_defs)
  have st: "snd (post_parcels example_env ?post example_db)
      = \<lparr>users = [],
         parcels = [parcel_a, parcel_b, parcel_c, (''_id'', JOid ''6890000000000000000000bb'') # new_parcel],
         payments = [], riders = []\<rparr>"
    by (simp add: post_parcels_def insertOne_def example_defs new_parcel_def Let_def)
  have i: "insert_id example_env = ''6890000000000000000000bb''" by (simp add: example_defs)
  from parcel_round_trip [OF h1 h2 h3 h4 h5] st i show ?thesis
    by (simp add: example_request_def)
qed

section \<open>The two timestamps of a payment record\<close>

text \<open>
  The handler reads the clock twice, once for \<open>paid_at_string\<close> and once more for
  \<open>paid_at\<close>. When both readings are the same, the string is the rendering of the date.
\<close>

lemma timestamps_agree_on_equal_readings:
  "clock_first e = clock_second e \<Longrightarrow>
   map_of (paymentDoc e b) ''paid_at_string'' = Some (JStr (toISOString (clock_second e)))
   \<and> map_of (paymentDoc e b) ''paid_at'' = Some (JDate (clock_second e))"
  by (simp add: paymentDoc_def)

text \<open>
  C9. The claim that \<open>paid_at_string\<close> is the ISO-8601 rendering of \<open>paid_at\<close> fails
  when the clock advances between the two readings: with the first reading at
  1700000000999 ms and the second at 1700000001000 ms, the record holds a string for
  22:13:20.999 and a date that renders as 22:13:21.000.
\<close>

theorem timestamps_from_two_readings:
  "payments (snd (post_payments example_env pay_a example_db))
     = [[(''_id'', JOid ''6890000000000000000000bb''),
         (''parcelId'', JStr ''64b7f0c2a1b2c3d4e5f60789''),
         (''email'', JStr ''amina@example.com''),
         (''amount'', JNum 500),
         (''paymentMethod'', JStr ''card''),
         (''transactionId'', JStr ''pi_1''),
         (''paid_at_string'', JStr ''2023-11-14T22:13:20.999Z''),
         (''paid_at'', JDate 1700000001000)]]
   \<and> toISOString 1700000001000 = ''2023-11-14T22:13:21.000Z''"
  by (simp add: example_defs eval_defs iso_defs)

end
